theory Spec2Isabelle
  imports Complex_Main "HOL-Library.Multiset"
begin

section \<open>The interactive runner: \<^verbatim>\<open>bluefog/run/interactive_run.py\<close>\<close>

subsection \<open>Data: the argparse namespace, exceptions, observable effects\<close>

text \<open>
  The namespace that \<^verbatim>\<open>parser.parse_args()\<close> returns: one field per
  \<^verbatim>\<open>add_argument\<close> of \<^verbatim>\<open>parse_args\<close>, under its \<^verbatim>\<open>dest\<close>.
  A \<^verbatim>\<open>store\<close> argument that was not given is \<^verbatim>\<open>None\<close>.
\<close>

record args =
  version :: bool
  np :: "int option"
  ssh_port :: "int option"
  daemonize :: bool
  nic :: "string option"
  use_infiniband :: bool
  profile :: string
  hosts :: "string option"
  hostfile :: "string option"
  extra_flags :: "string option"
  command :: "string list"

text \<open>The namespace of an empty command line: every argument at its default.\<close>

definition default_args :: args where
  "default_args =
     \<lparr>version = False, np = None, ssh_port = None, daemonize = False, nic = None,
      use_infiniband = False, profile = ''bluefog'', hosts = None, hostfile = None,
      extra_flags = None, command = []\<rparr>"

text \<open>
  How a run of the script stops. \<^verbatim>\<open>exit(n)\<close> raises \<^verbatim>\<open>SystemExit\<close>;
  \<^verbatim>\<open>parser.error(msg)\<close> prints the usage and \<^verbatim>\<open>msg\<close> and exits with status 2.
\<close>

datatype stop =
    SystemExit int
  | ParserError string
  | Exception string
  | ValueError string
  | RuntimeError string
  | AssertionError
  | AttributeError string
  | IndexError

text \<open>What a run does to the outside, in order.\<close>

datatype event =
    Print string
  | GetHostsArgAndHostnames
  | FilterLocalAddresses "string list"
  | IsOpenMpiInstalled
  | IsIpyparallelInstalled
  | SubprocessRun string "(string \<times> string) list"
  | SubprocessPopen string "(string \<times> string) list"
  | TimeSleep nat
  | CheckAllHostsSsh "string list" "int option"
  | DriverFn "string list" "string list" "int option"
  | OsExecve string "string list" "(string \<times> string) list"

text \<open>
  The collaborators of the script that are not part of this file: the modules
  \<^verbatim>\<open>network_util\<close>, \<^verbatim>\<open>env_util\<close> and \<^verbatim>\<open>horovod_driver\<close>, the package version,
  the process environment and Python's rendering of a list inside \<^verbatim>\<open>str.format\<close>.
  They are parameters of the model.
\<close>

record world =
  bluefog_version :: string
  get_hosts_arg_and_hostnames :: "args \<Rightarrow> stop + (string \<times> string list)"
  filter_local_addresses :: "string list \<Rightarrow> string list"
  is_open_mpi_installed :: bool
  is_ipyparallel_installed :: bool
  os_environ :: "(string \<times> string) list"
  check_all_hosts_ssh_successful :: "string list \<Rightarrow> int option \<Rightarrow> bool"
  driver_fn :: "string list \<Rightarrow> string list \<Rightarrow> int option \<Rightarrow> string list"
  is_exportable :: "string \<Rightarrow> bool"
  format_list :: "string list \<Rightarrow> string"

subsection \<open>Sequencing: a trace of effects and either an exception or a result\<close>

type_synonym 'a io = "event list \<times> (stop + 'a)"

definition ret :: "'a \<Rightarrow> 'a io" where
  "ret x = ([], Inr x)"

definition py_raise :: "stop \<Rightarrow> 'a io" where
  "py_raise e = ([], Inl e)"

definition emit :: "event \<Rightarrow> unit io" where
  "emit ev = ([ev], Inr ())"

definition bind_io :: "'a io \<Rightarrow> ('a \<Rightarrow> 'b io) \<Rightarrow> 'b io" where
  "bind_io m f =
     (case m of
        (t, Inl e) \<Rightarrow> (t, Inl e)
      | (t, Inr x) \<Rightarrow> (case f x of (t', r) \<Rightarrow> (t @ t', r)))"

definition seq_io :: "'a io \<Rightarrow> 'b io \<Rightarrow> 'b io" where
  "seq_io m n = bind_io m (\<lambda>_. n)"

definition when_io :: "bool \<Rightarrow> unit io \<Rightarrow> unit io" where
  "when_io b m = (if b then m else ret ())"

subsection \<open>Python values: truthiness, \<^verbatim>\<open>str\<close>, \<^verbatim>\<open>join\<close>, dictionaries\<close>

definition truthy_int :: "int option \<Rightarrow> bool" where
  "truthy_int v = (case v of None \<Rightarrow> False | Some n \<Rightarrow> n \<noteq> 0)"

definition truthy_str :: "string option \<Rightarrow> bool" where
  "truthy_str v = (case v of None \<Rightarrow> False | Some s \<Rightarrow> s \<noteq> [])"

function str_nat :: "nat \<Rightarrow> string" where
  "str_nat n =
     (if n < 10 then [''0123456789'' ! n]
      else str_nat (n div 10) @ [''0123456789'' ! (n mod 10)])"
  by pat_completeness auto
termination
  by (relation "measure (\<lambda>n. n)") auto

declare str_nat.simps [simp del]

definition str_int :: "int \<Rightarrow> string" where
  "str_int i = (if i < 0 then CHR ''-'' # str_nat (nat (- i)) else str_nat (nat i))"

definition format_int :: "int option \<Rightarrow> string" where
  "format_int v = (case v of None \<Rightarrow> ''None'' | Some i \<Rightarrow> str_int i)"

text \<open>\<^verbatim>\<open>xs[i]\<close> for a non-negative \<^verbatim>\<open>i\<close>: out of range it raises.\<close>

definition py_index :: "'a list \<Rightarrow> nat \<Rightarrow> 'a io" where
  "py_index xs i = (if i < length xs then ret (xs ! i) else py_raise IndexError)"

fun join :: "string \<Rightarrow> string list \<Rightarrow> string" where
  "join sep [] = []"
| "join sep [x] = x"
| "join sep (x # y # ys) = x @ sep @ join sep (y # ys)"

fun dict_set :: "string \<Rightarrow> string \<Rightarrow> (string \<times> string) list \<Rightarrow> (string \<times> string) list" where
  "dict_set k v [] = [(k, v)]"
| "dict_set k v ((k', v') # kvs) =
     (if k = k' then (k, v) # kvs else (k', v') # dict_set k v kvs)"

subsection \<open>\<^verbatim>\<open>parse_args\<close>\<close>

text \<open>
  The argument is the namespace \<^verbatim>\<open>parser.parse_args()\<close> produced; what remains of
  the function is its own check, \<^verbatim>\<open>if not parsed_args.version and not parsed_args.np\<close>.
\<close>

definition parse_args :: "args \<Rightarrow> args io" where
  "parse_args parsed_args =
     (if \<not> version parsed_args \<and> \<not> truthy_int (np parsed_args)
      then py_raise (ParserError ''argument -np/--num-proc is required'')
      else ret parsed_args)"

subsection \<open>\<^verbatim>\<open>main\<close>\<close>

text \<open>Calls into the collaborators, each leaving its mark in the trace.\<close>

definition call_get_hosts :: "world \<Rightarrow> args \<Rightarrow> (string \<times> string list) io" where
  "call_get_hosts w a = ([GetHostsArgAndHostnames], get_hosts_arg_and_hostnames w a)"

definition call_filter_local :: "world \<Rightarrow> string list \<Rightarrow> string list io" where
  "call_filter_local w names = ([FilterLocalAddresses names], Inr (filter_local_addresses w names))"

definition call_is_open_mpi_installed :: "world \<Rightarrow> bool io" where
  "call_is_open_mpi_installed w = ([IsOpenMpiInstalled], Inr (is_open_mpi_installed w))"

definition call_is_ipyparallel_installed :: "world \<Rightarrow> bool io" where
  "call_is_ipyparallel_installed w = ([IsIpyparallelInstalled], Inr (is_ipyparallel_installed w))"

definition call_check_ssh :: "world \<Rightarrow> string list \<Rightarrow> int option \<Rightarrow> bool io" where
  "call_check_ssh w names port =
     ([CheckAllHostsSsh names port], Inr (check_all_hosts_ssh_successful w names port))"

definition call_driver_fn ::
  "world \<Rightarrow> string list \<Rightarrow> string list \<Rightarrow> int option \<Rightarrow> bool \<Rightarrow> string list io" where
  "call_driver_fn w all_names local_names port verbose =
     ([DriverFn all_names local_names port], Inr (driver_fn w all_names local_names port))"

text \<open>
  \<^verbatim>\<open>args.verbose\<close>: \<^verbatim>\<open>parse_args\<close> adds no argument with that \<^verbatim>\<open>dest\<close>, so the
  attribute lookup raises.
\<close>

definition args_verbose :: "args \<Rightarrow> bool io" where
  "args_verbose a = py_raise (AttributeError ''verbose'')"

definition open_mpi_message :: string where
  "open_mpi_message =
     ''ibfrun convenience script currently only supports Open MPI.'' @ [CHR 0x0A, CHR 0x0A] @
     ''Choose one of:'' @ [CHR 0x0A] @
     ''1. Install Open MPI 4.0.0+ and re-install Bluefog.'' @ [CHR 0x0A] @
     ''2. Run distributed '' @
     ''training script using the standard way provided by your'' @
     '' MPI distribution (usually mpirun, srun, or jsrun).''"

definition ipyparallel_message :: string where
  "ipyparallel_message =
     ''ibfrun is based on the ipyparallel package. Please install it in your'' @ [CHR 0x0A] @
     ''system like `pip install ipyparallel` first, then run ibfrun again.''"

definition command_message :: "world \<Rightarrow> string list \<Rightarrow> string" where
  "command_message w cmd =
     ''The last command has to be either 'start' or 'stop', but it is '' @
     format_list w cmd @ '' now.''"

text \<open>Lines 124 to 142: every host is local.\<close>

definition single_machine ::
  "args \<Rightarrow> (string \<times> string) list \<Rightarrow> string \<Rightarrow> unit io" where
  "single_machine a env cmd =
     (let ipcontroller_command = ''ipcontroller --profile '' @ profile a;
          ipengine_command =
            ''bfrun -np '' @ format_int (np a) @ '' ipengine '' @ cmd @
            '' --profile '' @ profile a
      in seq_io
           (when_io (cmd = ''start'')
              (seq_io (emit (SubprocessRun ''ipcluster nbextension enable --user'' env))
              (seq_io (emit (Print ipcontroller_command))
              (seq_io (emit (SubprocessPopen ipcontroller_command env))
                      (emit (TimeSleep 3))))))
           (seq_io (emit (Print ipengine_command))
           (seq_io (emit (SubprocessRun ipengine_command env))
                   (py_raise (SystemExit 0)))))"

text \<open>Lines 148 to 203: the statements that follow \<^verbatim>\<open>raise RuntimeError(...)\<close>.\<close>

definition mpirun_command_of ::
  "world \<Rightarrow> args \<Rightarrow> string \<Rightarrow> string list \<Rightarrow> (string \<times> string) list \<Rightarrow> string \<Rightarrow> string" where
  "mpirun_command_of w a hosts_arg common_intfs env cmd =
     (let tcp_intf_arg =
            (if common_intfs \<noteq> []
             then ''-mca btl_tcp_if_include '' @ join '','' common_intfs else '''');
          nccl_socket_intf_arg =
            (if common_intfs \<noteq> []
             then ''-x NCCL_SOCKET_IFNAME='' @ join '','' common_intfs else '''');
          ib_arg = (if use_infiniband a then ''-mca btl openib,self'' else ''-mca btl ^openib'');
          ssh_port_arg =
            (if truthy_int (ssh_port a)
             then ''-mca plm_rsh_args '' @ [CHR 0x22] @ ''-p '' @ format_int (ssh_port a) @ [CHR 0x22]
             else '''');
          extra = (if truthy_str (extra_flags a) then the (extra_flags a) else '''');
          env_arg = join '' '' (map (\<lambda>key. ''-x '' @ key) (filter (is_exportable w) (map fst env)))
      in ''mpirun --allow-run-as-root '' @
         ''-np '' @ format_int (np a) @ '' '' @ hosts_arg @ '' '' @
         ''-bind-to none -map-by slot '' @
         ''-mca pml ob1 '' @ ib_arg @ '' '' @
         ssh_port_arg @ '' '' @ tcp_intf_arg @ '' '' @
         nccl_socket_intf_arg @ '' '' @
         extra @ '' '' @ env_arg @ '' '' @ cmd)"

definition multi_machine ::
  "world \<Rightarrow> args \<Rightarrow> string \<Rightarrow> string list \<Rightarrow> string list \<Rightarrow> (string \<times> string) list \<Rightarrow>
   string \<Rightarrow> unit io" where
  "multi_machine w a hosts_arg all_host_names remote_host_names env cmd =
     bind_io (call_check_ssh w remote_host_names (ssh_port a)) (\<lambda>ok.
     seq_io (when_io (\<not> ok) (py_raise AssertionError))
     (bind_io
        (if \<not> truthy_str (nic a)
         then (let local_host_names = filter (\<lambda>h. h \<notin> set remote_host_names) (remdups all_host_names)
               in bind_io (args_verbose a)
                    (call_driver_fn w all_host_names local_host_names (ssh_port a)))
         else ret [the (nic a)])
        (\<lambda>common_intfs.
           let mpirun_command = mpirun_command_of w a hosts_arg common_intfs env cmd
           in seq_io
                (bind_io (args_verbose a) (\<lambda>verbose. when_io verbose (emit (Print mpirun_command))))
                (emit (OsExecve ''/bin/sh'' [''/bin/sh'', ''-c'', mpirun_command] env)))))"

definition main :: "world \<Rightarrow> args \<Rightarrow> unit io" where
  "main w parsed =
     bind_io (parse_args parsed) (\<lambda>a.
     seq_io (when_io (version a)
               (seq_io (emit (Print (bluefog_version w))) (py_raise (SystemExit 0))))
     (bind_io (call_get_hosts w a) (\<lambda>(hosts_arg, all_host_names).
      bind_io (call_filter_local w all_host_names) (\<lambda>remote_host_names.
      let daemonize_arg = (if daemonize a then ''--daemonize'' else '''')
      in bind_io (call_is_open_mpi_installed w) (\<lambda>mpi.
         seq_io (when_io (\<not> mpi) (py_raise (Exception open_mpi_message)))
         (bind_io (call_is_ipyparallel_installed w) (\<lambda>ipy.
          seq_io (when_io (\<not> ipy) (py_raise (Exception ipyparallel_message)))
          (let env = dict_set ''BLUEFOG_CYCLE_TIME'' (str_nat 20) (os_environ w)
           in seq_io (when_io (length (command a) \<noteq> 1 \<or> command a ! 0 \<notin> {''start'', ''stop''})
                        (py_raise (ValueError (command_message w (command a)))))
              (bind_io (py_index (command a) 0) (\<lambda>cmd.
               seq_io (when_io (remote_host_names = []) (single_machine a env cmd))
               (seq_io (py_raise (RuntimeError ''ibfrun does not support on multiple machine yet.'') :: unit io)
                       (multi_machine w a hosts_arg all_host_names remote_host_names env cmd))))))))))))"

subsection \<open>Vocabulary of the properties\<close>

text \<open>The trailing command is exactly one token, \<^verbatim>\<open>start\<close> or \<^verbatim>\<open>stop\<close>.\<close>

definition valid_command :: "string list \<Rightarrow> bool" where
  "valid_command cmd = (cmd = [''start''] \<or> cmd = [''stop''])"

text \<open>An effect that starts another program.\<close>

fun launches :: "event \<Rightarrow> bool" where
  "launches (SubprocessRun c e) = True"
| "launches (SubprocessPopen c e) = True"
| "launches (OsExecve p argv e) = True"
| "launches ev = False"

text \<open>An effect of the multi-machine path only.\<close>

fun multi_machine_step :: "event \<Rightarrow> bool" where
  "multi_machine_step (CheckAllHostsSsh names port) = True"
| "multi_machine_step (DriverFn all_names local_names port) = True"
| "multi_machine_step (OsExecve p argv e) = True"
| "multi_machine_step ev = False"

text \<open>
  Two sample installations, both with Open MPI and ipyparallel: one resolves every host
  to the local machine, the other finds the remote host \<^verbatim>\<open>node2\<close>.
  Their \<open>format_list\<close> renders a list as Python does for tokens that hold neither a quote
  nor a backslash; no property below depends on it.
\<close>

definition local_world :: world where
  "local_world =
     \<lparr>bluefog_version = ''0.2.1'',
      get_hosts_arg_and_hostnames = (\<lambda>a. Inr (''-H localhost:4'', [''localhost''])),
      filter_local_addresses = (\<lambda>names. []),
      is_open_mpi_installed = True,
      is_ipyparallel_installed = True,
      os_environ = [(''PATH'', ''/usr/bin'')],
      check_all_hosts_ssh_successful = (\<lambda>names port. True),
      driver_fn = (\<lambda>all_names local_names port. [''eth0'']),
      is_exportable = (\<lambda>key. True),
      format_list = (\<lambda>xs. ''['' @ join '', '' (map (\<lambda>x. [CHR 0x27] @ x @ [CHR 0x27]) xs) @ '']'')\<rparr>"

definition remote_world :: world where
  "remote_world =
     local_world
       \<lparr>get_hosts_arg_and_hostnames := (\<lambda>a. Inr (''-H localhost:2,node2:2'', [''localhost'', ''node2''])),
        filter_local_addresses := filter (\<lambda>h. h \<noteq> ''localhost'')\<rparr>"

section \<open>The neighbour exchange engine\<close>

text \<open>
  The engine itself (\<^verbatim>\<open>bluefog.torch\<close>, \<^verbatim>\<open>bluefog.tensorflow\<close> and the topology
  manager behind them) is not among the sources: the example scripts and the test only
  call it. Its operations are modelled from the specification, sections 3, 4.2, 4.4
  and 7. A buffer is a one-dimensional array of exact rationals, its shape its length.
\<close>

type_synonym rank = nat

type_synonym buffer = "rat list"

text \<open>Modelled from the spec: the error taxonomy of section 7 (the engine is missing).\<close>

datatype engine_error =
    NotInitialized
  | AlreadyInitialized
  | InvalidTopology
  | ShapeMismatch
  | DuplicateWindow
  | WindowNotFound
  | WindowInUse
  | UnknownDestination
  | PeerUnreachable
  | Timeout

text \<open>
  Modelled from the spec: the topology of section 3 (the topology manager is missing),
  for each rank the ordered ranks that send to it and the ordered ranks it sends to.
\<close>

record topology =
  inNeighbors :: "rank \<Rightarrow> rank list"
  outNeighbors :: "rank \<Rightarrow> rank list"

text \<open>
  Modelled from the spec: \<open>weight * buffer\<close>, the elementwise product that the missing
  engine forms of a weight and a contribution (section 4.4).
\<close>

definition scale :: "rat \<Rightarrow> buffer \<Rightarrow> buffer" where
  "scale w b = map (\<lambda>x. w * x) b"

text \<open>
  Modelled from the spec: the elementwise sum of two buffers of one shape, by which the
  missing engine accumulates contributions (section 4.4).
\<close>

definition add_buffers :: "buffer \<Rightarrow> buffer \<Rightarrow> buffer" where
  "add_buffers a b = map (\<lambda>(x, y). x + y) (zip a b)"

text \<open>
  Modelled from the spec: the aggregation loop of the missing \<^verbatim>\<open>neighborAllreduce\<close>
  (section 4.4). The weighted contributions are added one sender after the other, in the
  order of the in-neighbour list; a contribution whose shape differs fails with
  \<^verbatim>\<open>ShapeMismatch\<close>.
\<close>

fun aggregate :: "(rat \<times> buffer) list \<Rightarrow> buffer \<Rightarrow> engine_error + buffer" where
  "aggregate [] acc = Inr acc"
| "aggregate ((w, b) # rest) acc =
     (if length b \<noteq> length acc then Inl ShapeMismatch
      else aggregate rest (add_buffers acc (scale w b)))"

text \<open>
  Modelled from the spec: \<^verbatim>\<open>neighborAllreduce(buffer, name, weights)\<close> of the missing
  engine (section 4.4), as seen from the calling rank \<open>r\<close>; \<open>contribution s\<close> is the buffer
  rank \<open>s\<close> passes to its own call. The senders are \<open>inNeighbors(r)\<close>, the caller among
  them only when the topology lists it. Unspecified weights are uniform,
  \<open>1/|inNeighbors|\<close> each; supplied weights are used as they are. A rank without
  in-neighbours gets its own buffer back unchanged (section 4.2).
\<close>

definition neighborAllreduce ::
  "topology \<Rightarrow> (rank \<Rightarrow> buffer) \<Rightarrow> (rank \<Rightarrow> rat) option \<Rightarrow> rank \<Rightarrow> engine_error + buffer" where
  "neighborAllreduce T contribution weights r =
     (let senders = inNeighbors T r
      in if senders = [] then Inr (contribution r)
         else
           (let w = (case weights of
                       None \<Rightarrow> (\<lambda>s. 1 / of_nat (length senders))
                     | Some given \<Rightarrow> given)
            in aggregate (map (\<lambda>s. (w s, contribution s)) senders)
                 (replicate (length (contribution r)) 0)))"


text \<open>
  Modelled from the spec: the topology of the scenario of section 8, three ranks on the
  undirected ring 0, 1, 2, 0, each rank listed among its own neighbours.
\<close>

definition ring3_with_self :: topology where
  "ring3_with_self =
     \<lparr>inNeighbors = (\<lambda>r. [(r + 2) mod 3, r, (r + 1) mod 3]),
      outNeighbors = (\<lambda>r. [(r + 2) mod 3, r, (r + 1) mod 3])\<rparr>"




section \<open>The window manager\<close>

text \<open>
  The window manager (\<^verbatim>\<open>bf.win_create\<close>, \<^verbatim>\<open>bf.win_accumulate\<close>,
  \<^verbatim>\<open>bf.win_sync_then_collect\<close>) is not among the sources either; the examples only
  call it. One window is modelled from the specification, sections 3, 4.5 and 9, over
  the buffers of the neighbour exchange.
\<close>

text \<open>
  Modelled from the spec: the state of a window of the missing window manager (section
  3): the buffer the owner holds, the accumulations that have reached the window and are
  not applied yet, in the order they arrived (the inbound queue of section 9), the
  version, the mutex state (free, or held by a remote rank) and the snapshot of the last
  synchronize.
\<close>

record window =
  contents :: buffer
  inbound :: "(rat \<times> buffer) list"
  win_version :: nat
  mutexState :: "rank option"
  localSnapshot :: buffer

text \<open>
  Modelled from the spec: \<^verbatim>\<open>winCreate(buffer, name, zeroInit)\<close> of the missing window
  manager (section 4.5), for one name: a window of the buffer's shape, zero-initialized
  on request.
\<close>

definition winCreate :: "buffer \<Rightarrow> bool \<Rightarrow> window" where
  "winCreate b zeroInit =
     (let initial = (if zeroInit then replicate (length b) 0 else b)
      in \<lparr>contents = initial, inbound = [], win_version = 0, mutexState = None,
          localSnapshot = initial\<rparr>)"

text \<open>
  Modelled from the spec: the arrival at its destination window of one request of the
  missing \<^verbatim>\<open>winAccumulate\<close> (section 4.5), a weight and the sender's buffer. The request
  is queued; it is applied by the next synchronize.
\<close>

definition winAccumulate_arrive :: "rat \<times> buffer \<Rightarrow> window \<Rightarrow> window" where
  "winAccumulate_arrive request win = win\<lparr>inbound := inbound win @ [request]\<rparr>"

text \<open>
  Modelled from the spec: the application of one queued request of the missing
  \<^verbatim>\<open>winAccumulate\<close> (section 4.5), which adds \<open>weight * buffer\<close> into the window.
\<close>

definition accumulate_into :: "rat \<times> buffer \<Rightarrow> buffer \<Rightarrow> buffer" where
  "accumulate_into request acc = add_buffers acc (scale (fst request) (snd request))"

text \<open>
  Modelled from the spec: \<^verbatim>\<open>winSyncThenCollect(name)\<close> of the missing window manager
  (section 4.5): every accumulation that has arrived is applied, in the order of arrival;
  the call returns the buffer that results, keeps it as the snapshot and bumps the
  version.
\<close>

definition winSyncThenCollect :: "window \<Rightarrow> buffer \<times> window" where
  "winSyncThenCollect win =
     (let collected = fold accumulate_into (inbound win) (contents win)
      in (collected,
          win\<lparr>contents := collected, inbound := [], win_version := win_version win + 1,
              localSnapshot := collected\<rparr>))"

section \<open>Auxiliary facts\<close>

subsection \<open>Auxiliary facts about the runner\<close>

lemmas io_defs = bind_io_def seq_io_def when_io_def ret_def py_raise_def emit_def
  call_get_hosts_def call_filter_local_def call_is_open_mpi_installed_def
  call_is_ipyparallel_installed_def call_check_ssh_def call_driver_fn_def args_verbose_def
  py_index_def

lemma str_nat_20: "str_nat 20 = ''20''"
  by code_simp

lemma str_nat_4: "str_nat 4 = ''4''"
  by code_simp

text \<open>The test of line 119 is the negation of \<open>valid_command\<close>.\<close>

lemma command_check_iff:
  "(length cmd \<noteq> 1 \<or> cmd ! 0 \<notin> {''start'', ''stop''}) = (\<not> valid_command cmd)"
  by (cases cmd) (auto simp: valid_command_def)

lemma single_machine_stops: "\<exists>t e. single_machine a env cmd = (t, Inl e)"
  by (simp add: single_machine_def io_defs Let_def)

lemma single_machine_exit: "snd (single_machine a env cmd) = Inl (SystemExit 0)"
  by (simp add: single_machine_def io_defs Let_def)

lemma single_machine_no_multi:
  "ev \<in> set (fst (single_machine a env cmd)) \<Longrightarrow> \<not> multi_machine_step ev"
  by (auto simp add: single_machine_def io_defs Let_def split: if_splits)

text \<open>The multi-machine statements, run on their own, begin with the SSH check.\<close>

lemma multi_machine_first_step:
  "\<exists>t r. multi_machine w a hosts_arg all_host_names remote_host_names env cmd =
     (CheckAllHostsSsh remote_host_names (ssh_port a) # t, r)"
  by (auto simp: multi_machine_def io_defs Let_def split: sum.splits prod.splits)

lemma main_version:
  "version a \<Longrightarrow> main w a = ([Print (bluefog_version w)], Inl (SystemExit 0))"
  by (simp add: main_def parse_args_def io_defs)

lemma parse_args_error:
  "(snd (parse_args a) = Inl (ParserError ''argument -np/--num-proc is required'')) =
   (\<not> version a \<and> (np a = None \<or> np a = Some 0))"
  by (auto simp: parse_args_def io_defs truthy_int_def split: option.splits)

lemma parse_args_ok:
  "\<not> (\<not> version a \<and> (np a = None \<or> np a = Some 0)) \<Longrightarrow> parse_args a = ([], Inr a)"
  by (auto simp: parse_args_def io_defs truthy_int_def split: option.splits)

lemma main_no_multi: "ev \<in> set (fst (main w a)) \<Longrightarrow> \<not> multi_machine_step ev"
  using single_machine_stops
          [of a "dict_set ''BLUEFOG_CYCLE_TIME'' (str_nat 20) (os_environ w)" "command a ! 0"]
        single_machine_no_multi
          [of ev a "dict_set ''BLUEFOG_CYCLE_TIME'' (str_nat 20) (os_environ w)" "command a ! 0"]
  by (auto simp: main_def parse_args_def io_defs Let_def
           split: sum.splits prod.splits if_splits)

lemma main_invalid_no_launch:
  "\<not> valid_command (command a) \<Longrightarrow> ev \<in> set (fst (main w a)) \<Longrightarrow> \<not> launches ev"
  unfolding main_def command_check_iff
  by (auto simp: parse_args_def io_defs Let_def split: sum.splits prod.splits if_splits)

lemma main_invalid_stops:
  "\<not> valid_command (command a) \<Longrightarrow> \<exists>e. snd (main w a) = Inl e"
  unfolding main_def command_check_iff
  by (auto simp: parse_args_def io_defs Let_def split: sum.splits prod.splits if_splits)

lemma main_invalid_value_error:
  "\<not> version a \<Longrightarrow> truthy_int (np a) \<Longrightarrow> get_hosts_arg_and_hostnames w a = Inr hs \<Longrightarrow>
   is_open_mpi_installed w \<Longrightarrow> is_ipyparallel_installed w \<Longrightarrow>
   \<not> valid_command (command a) \<Longrightarrow>
   snd (main w a) = Inl (ValueError (command_message w (command a)))"
  unfolding main_def command_check_iff
  by (cases hs) (simp add: parse_args_def io_defs Let_def)

lemma main_valid_outcome:
  "\<not> version a \<Longrightarrow> truthy_int (np a) \<Longrightarrow> get_hosts_arg_and_hostnames w a = Inr hs \<Longrightarrow>
   is_open_mpi_installed w \<Longrightarrow> is_ipyparallel_installed w \<Longrightarrow> valid_command (command a) \<Longrightarrow>
   snd (main w a) =
     (if filter_local_addresses w (snd hs) = [] then Inl (SystemExit 0)
      else Inl (RuntimeError ''ibfrun does not support on multiple machine yet.''))"
  using single_machine_exit
          [of a "dict_set ''BLUEFOG_CYCLE_TIME'' (str_nat 20) (os_environ w)" "command a ! 0"]
  by (cases hs;
      cases "single_machine a (dict_set ''BLUEFOG_CYCLE_TIME'' (str_nat 20) (os_environ w))
               (command a ! 0)")
     (auto simp: main_def parse_args_def io_defs Let_def valid_command_def)

lemma main_reaches_check:
  "\<not> version a \<Longrightarrow> truthy_int (np a) \<Longrightarrow> get_hosts_arg_and_hostnames w a = Inr hs \<Longrightarrow>
   is_open_mpi_installed w \<Longrightarrow> is_ipyparallel_installed w \<Longrightarrow>
   (snd (main w a) = Inl (ValueError (command_message w (command a)))) =
   (\<not> valid_command (command a))"
  using main_invalid_value_error[of a w hs] main_valid_outcome[of a w hs]
  by (cases "valid_command (command a)") (auto split: if_splits)

lemma main_remote_no_launch:
  "get_hosts_arg_and_hostnames w a = Inr (hosts_arg, names) \<Longrightarrow>
   filter_local_addresses w names \<noteq> [] \<Longrightarrow>
   ev \<in> set (fst (main w a)) \<Longrightarrow> \<not> launches ev"
  by (auto simp: main_def parse_args_def io_defs Let_def
           split: sum.splits prod.splits if_splits)

lemma main_remote_runtime_error:
  "get_hosts_arg_and_hostnames w a = Inr (hosts_arg, names) \<Longrightarrow>
   filter_local_addresses w names \<noteq> [] \<Longrightarrow>
   \<not> version a \<Longrightarrow> truthy_int (np a) \<Longrightarrow>
   is_open_mpi_installed w \<Longrightarrow> is_ipyparallel_installed w \<Longrightarrow>
   valid_command (command a) \<Longrightarrow>
   main w a = ([GetHostsArgAndHostnames, FilterLocalAddresses names, IsOpenMpiInstalled,
                IsIpyparallelInstalled],
               Inl (RuntimeError ''ibfrun does not support on multiple machine yet.''))"
  by (auto simp: main_def parse_args_def io_defs Let_def valid_command_def
           split: sum.splits prod.splits if_splits)

text \<open>The sample runs.\<close>

lemma sample_version_run:
  "main local_world (default_args\<lparr>version := True\<rparr>) = ([Print ''0.2.1''], Inl (SystemExit 0))"
  by (simp add: main_def parse_args_def io_defs default_args_def local_world_def)

lemma sample_start_run:
  "main local_world (default_args\<lparr>np := Some 4, command := [''start'']\<rparr>) =
     ([GetHostsArgAndHostnames, FilterLocalAddresses [''localhost''],
       IsOpenMpiInstalled, IsIpyparallelInstalled,
       SubprocessRun ''ipcluster nbextension enable --user''
         [(''PATH'', ''/usr/bin''), (''BLUEFOG_CYCLE_TIME'', ''20'')],
       Print ''ipcontroller --profile bluefog'',
       SubprocessPopen ''ipcontroller --profile bluefog''
         [(''PATH'', ''/usr/bin''), (''BLUEFOG_CYCLE_TIME'', ''20'')],
       TimeSleep 3,
       Print ''bfrun -np 4 ipengine start --profile bluefog'',
       SubprocessRun ''bfrun -np 4 ipengine start --profile bluefog''
         [(''PATH'', ''/usr/bin''), (''BLUEFOG_CYCLE_TIME'', ''20'')]],
      Inl (SystemExit 0))"
  by (simp add: main_def parse_args_def io_defs default_args_def local_world_def
        single_machine_def truthy_int_def format_int_def str_int_def str_nat_20 str_nat_4
        Let_def)

lemma sample_bad_command_run:
  "main local_world (default_args\<lparr>np := Some 4, command := [''foo'', ''bar'']\<rparr>) =
     ([GetHostsArgAndHostnames, FilterLocalAddresses [''localhost''],
       IsOpenMpiInstalled, IsIpyparallelInstalled],
      Inl (ValueError (command_message local_world [''foo'', ''bar''])))"
  by (simp add: main_def parse_args_def io_defs default_args_def local_world_def truthy_int_def
        Let_def)

lemma sample_remote_no_command_run:
  "main remote_world (default_args\<lparr>np := Some 4\<rparr>) =
     ([GetHostsArgAndHostnames, FilterLocalAddresses [''localhost'', ''node2''],
       IsOpenMpiInstalled, IsIpyparallelInstalled],
      Inl (ValueError (command_message remote_world [])))"
  by (simp add: main_def parse_args_def io_defs default_args_def local_world_def
        remote_world_def truthy_int_def Let_def)

subsection \<open>Auxiliary facts about the neighbour exchange\<close>






text \<open>The loop adds, at every index, the weighted entries of all the contributions.\<close>

lemma aggregate_ok:
  "\<forall>p \<in> set ps. length (snd p) = length acc \<Longrightarrow>
   aggregate ps acc =
     Inr (map (\<lambda>i. acc ! i + (\<Sum>p\<leftarrow>ps. fst p * snd p ! i)) [0..<length acc])"
proof (induction ps arbitrary: acc)
  case Nil
  then show ?case by (simp add: map_nth)
next
  case (Cons p ps)
  obtain w b where p: "p = (w, b)" by (cases p)
  have len: "length b = length acc" using Cons.prems p by simp
  have len': "length (add_buffers acc (scale w b)) = length acc"
    using len by (simp add: add_buffers_def scale_def)
  have "\<forall>q \<in> set ps. length (snd q) = length (add_buffers acc (scale w b))"
    using Cons.prems len' by simp
  from Cons.IH[OF this] show ?case
    using len p by (auto simp: add_buffers_def scale_def len' algebra_simps)
qed

lemma sum_list_uniform:
  "(\<Sum>s\<leftarrow>ns. f s / (k::rat)) = (\<Sum>s\<leftarrow>ns. f s) / k"
  by (induction ns) (auto simp: add_divide_distrib)

lemma neighborAllreduce_weighted:
  assumes "inNeighbors T r \<noteq> []"
    and "\<forall>s \<in> set (inNeighbors T r). length (c s) = length (c r)"
  shows "neighborAllreduce T c (Some w) r =
           Inr (map (\<lambda>i. \<Sum>s\<leftarrow>inNeighbors T r. w s * c s ! i) [0..<length (c r)])"
proof -
  let ?ps = "map (\<lambda>s. (w s, c s)) (inNeighbors T r)"
  have "\<forall>p \<in> set ?ps. length (snd p) = length (replicate (length (c r)) (0::rat))"
    using assms(2) by auto
  from aggregate_ok[OF this] show ?thesis
    using assms(1) by (simp add: neighborAllreduce_def Let_def comp_def)
qed

lemma neighborAllreduce_uniform:
  assumes "inNeighbors T r \<noteq> []"
    and "\<forall>s \<in> set (inNeighbors T r). length (c s) = length (c r)"
  shows "neighborAllreduce T c None r =
           Inr (map (\<lambda>i. (\<Sum>s\<leftarrow>inNeighbors T r. c s ! i) / of_nat (length (inNeighbors T r)))
                  [0..<length (c r)])"
proof -
  let ?n = "length (inNeighbors T r)"
  let ?ps = "map (\<lambda>s. (1 / of_nat ?n, c s)) (inNeighbors T r)"
  have "\<forall>p \<in> set ?ps. length (snd p) = length (replicate (length (c r)) (0::rat))"
    using assms(2) by auto
  from aggregate_ok[OF this] show ?thesis
    using assms(1) by (simp add: neighborAllreduce_def Let_def comp_def sum_list_uniform)
qed

lemma neighborAllreduce_default_weights:
  "neighborAllreduce T c None r =
   neighborAllreduce T c (Some (\<lambda>s. 1 / of_nat (length (inNeighbors T r)))) r"
  by (simp add: neighborAllreduce_def Let_def)

lemma ring3_scenario:
  "neighborAllreduce ring3_with_self (\<lambda>s. [of_nat s]) None 1 = Inr [1]"
  by (simp add: neighborAllreduce_def ring3_with_self_def Let_def add_buffers_def scale_def)

subsection \<open>Auxiliary facts about the window\<close>

lemma accumulate_into_nth:
  "length b = length acc \<Longrightarrow>
   accumulate_into (w, b) acc = map (\<lambda>i. acc ! i + w * b ! i) [0..<length acc]"
  unfolding accumulate_into_def add_buffers_def scale_def
  by (rule nth_equalityI) simp_all

lemma fold_accumulate_into:
  "\<forall>p \<in> set ps. length (snd p) = length acc \<Longrightarrow>
   fold accumulate_into ps acc =
     map (\<lambda>i. acc ! i + (\<Sum>p\<leftarrow>ps. fst p * snd p ! i)) [0..<length acc]"
proof (induction ps arbitrary: acc)
  case Nil
  then show ?case by (simp add: map_nth)
next
  case (Cons p ps)
  obtain w b where p: "p = (w, b)" by (cases p)
  have len: "length b = length acc" using Cons.prems p by simp
  let ?acc = "map (\<lambda>i. acc ! i + w * b ! i) [0..<length acc]"
  have step: "accumulate_into p acc = ?acc"
    unfolding p using len by (rule accumulate_into_nth)
  have "\<forall>q \<in> set ps. length (snd q) = length ?acc"
    using Cons.prems by simp
  from Cons.IH[OF this] have
    "fold accumulate_into ps ?acc =
       map (\<lambda>i. ?acc ! i + (\<Sum>p\<leftarrow>ps. fst p * snd p ! i)) [0..<length acc]"
    by simp
  then have "fold accumulate_into (p # ps) acc =
       map (\<lambda>i. ?acc ! i + (\<Sum>p\<leftarrow>ps. fst p * snd p ! i)) [0..<length acc]"
    by (simp add: step)
  also have "\<dots> = map (\<lambda>i. acc ! i + (\<Sum>p\<leftarrow>p # ps. fst p * snd p ! i)) [0..<length acc]"
    by (simp add: p add.assoc)
  finally show ?case .
qed

lemma inbound_after_arrivals:
  "inbound (fold winAccumulate_arrive arrivals win) = inbound win @ arrivals"
  by (induction arrivals arbitrary: win) (simp_all add: winAccumulate_arrive_def)

lemma contents_after_arrivals:
  "contents (fold winAccumulate_arrive arrivals win) = contents win"
  by (induction arrivals arbitrary: win) (simp_all add: winAccumulate_arrive_def)

text \<open>The sum over the requests does not depend on the order in which they are listed.\<close>

lemma weighted_sum_order:
  assumes "mset arrivals = mset sends"
  shows "(\<Sum>p\<leftarrow>arrivals. fst p * snd p ! i) = (\<Sum>p\<leftarrow>sends. (fst p :: rat) * snd p ! i)"
proof -
  let ?f = "\<lambda>p :: rat \<times> buffer. fst p * snd p ! i"
  have "sum_list (map ?f arrivals) = sum_mset (image_mset ?f (mset arrivals))"
    by (simp add: sum_mset_sum_list[symmetric])
  also have "\<dots> = sum_mset (image_mset ?f (mset sends))"
    by (simp add: assms)
  also have "\<dots> = sum_list (map ?f sends)"
    by (simp add: sum_mset_sum_list[symmetric])
  finally show ?thesis .
qed

lemma winSyncThenCollect_quiet:
  "inbound win = [] \<Longrightarrow> fst (winSyncThenCollect win) = contents win"
  by (simp add: winSyncThenCollect_def Let_def)

lemma winSyncThenCollect_after_arrivals:
  assumes "inbound win = []"
    and "\<forall>p \<in> set sends. length (snd p) = length (contents win)"
    and "mset arrivals = mset sends"
  shows "fst (winSyncThenCollect (fold winAccumulate_arrive arrivals win)) =
           map (\<lambda>i. contents win ! i + (\<Sum>p\<leftarrow>sends. fst p * snd p ! i))
             [0..<length (contents win)]"
proof -
  have "set arrivals = set sends"
    using assms(3) by (rule mset_eq_setD)
  then have shapes: "\<forall>p \<in> set arrivals. length (snd p) = length (contents win)"
    using assms(2) by simp
  have "fst (winSyncThenCollect (fold winAccumulate_arrive arrivals win)) =
          fold accumulate_into arrivals (contents win)"
    by (simp add: winSyncThenCollect_def Let_def inbound_after_arrivals contents_after_arrivals
          assms(1))
  also have "\<dots> = map (\<lambda>i. contents win ! i + (\<Sum>p\<leftarrow>arrivals. fst p * snd p ! i))
                      [0..<length (contents win)]"
    using shapes by (rule fold_accumulate_into)
  also have "\<dots> = map (\<lambda>i. contents win ! i + (\<Sum>p\<leftarrow>sends. fst p * snd p ! i))
                      [0..<length (contents win)]"
    using weighted_sum_order[OF assms(3)] by simp
  finally show ?thesis .
qed

section \<open>Properties of the interactive runner\<close>

text \<open>
  Claim C8, as the code has it. \<^verbatim>\<open>parse_args\<close> ends in the parser error
  ``argument -np/--num-proc is required'' exactly when \<^verbatim>\<open>--version\<close> was not given and
  the \<^verbatim>\<open>-np\<close> value is absent or zero (the test is \<^verbatim>\<open>not parsed_args.np\<close>, and zero is
  falsy); otherwise it returns the namespace unchanged. When \<^verbatim>\<open>--version\<close> was given,
  \<^verbatim>\<open>main\<close> prints the version and exits with status 0, and that print is its only effect:
  no host resolution and no installation check precedes it.
\<close>

theorem parse_args_required_unless_version:
  "((snd (parse_args a) = Inl (ParserError ''argument -np/--num-proc is required'')) =
      (\<not> version a \<and> (np a = None \<or> np a = Some 0))) \<and>
   (\<not> (\<not> version a \<and> (np a = None \<or> np a = Some 0)) \<longrightarrow> parse_args a = ([], Inr a)) \<and>
   (version a \<longrightarrow> main w a = ([Print (bluefog_version w)], Inl (SystemExit 0)))"
  using parse_args_error[of a] parse_args_ok[of a] main_version[of a w] by blast

theorem parse_args_required_unless_version_witness:
  "version (default_args\<lparr>version := True\<rparr>) \<and>
   parse_args (default_args\<lparr>version := True\<rparr>) = ([], Inr (default_args\<lparr>version := True\<rparr>)) \<and>
   main local_world (default_args\<lparr>version := True\<rparr>) = ([Print ''0.2.1''], Inl (SystemExit 0))"
  using parse_args_required_unless_version[of "default_args\<lparr>version := True\<rparr>" local_world]
  by (simp add: default_args_def local_world_def)

text \<open>
  The claim as stated fails for \<^verbatim>\<open>-np 0\<close>: a \<^verbatim>\<open>-np\<close> value is supplied, and the parser
  error is raised all the same.
\<close>

theorem parse_args_np_zero_counterexample:
  "np (default_args\<lparr>np := Some 0\<rparr>) = Some 0 \<and>
   parse_args (default_args\<lparr>np := Some 0\<rparr>) =
     ([], Inl (ParserError ''argument -np/--num-proc is required''))"
  by (simp add: parse_args_def default_args_def truthy_int_def py_raise_def)

text \<open>
  Claim C9, as the code has it. When \<^verbatim>\<open>main\<close> gets as far as the command check (no
  \<^verbatim>\<open>--version\<close>, a non-zero \<^verbatim>\<open>-np\<close>, the hosts resolved, Open MPI and ipyparallel
  installed), it raises \<^verbatim>\<open>ValueError\<close> exactly when the trailing command is not the single
  token \<^verbatim>\<open>start\<close> or \<^verbatim>\<open>stop\<close>. For every namespace and every environment, a run whose
  trailing command is not such a token stops with an exception or an exit and launches no
  other program.
\<close>

theorem main_rejects_other_commands:
  "(\<not> version a \<and> truthy_int (np a) \<and> get_hosts_arg_and_hostnames w a = Inr hs \<and>
    is_open_mpi_installed w \<and> is_ipyparallel_installed w \<longrightarrow>
      (snd (main w a) = Inl (ValueError (command_message w (command a)))) =
      (\<not> valid_command (command a))) \<and>
   (\<not> valid_command (command a) \<longrightarrow>
      (\<exists>e. snd (main w a) = Inl e) \<and> (\<forall>ev \<in> set (fst (main w a)). \<not> launches ev))"
  using main_reaches_check[of a w hs] main_invalid_stops[of a w]
        main_invalid_no_launch[of a _ w]
  by blast

theorem main_rejects_other_commands_witness:
  "\<not> valid_command [''foo'', ''bar''] \<and>
   snd (main local_world (default_args\<lparr>np := Some 4, command := [''foo'', ''bar'']\<rparr>)) =
     Inl (ValueError (command_message local_world [''foo'', ''bar''])) \<and>
   filter launches
     (fst (main local_world (default_args\<lparr>np := Some 4, command := [''foo'', ''bar'']\<rparr>))) = [] \<and>
   valid_command [''start''] \<and>
   snd (main local_world (default_args\<lparr>np := Some 4, command := [''start'']\<rparr>)) \<noteq>
     Inl (ValueError (command_message local_world [''start'']))"
proof -
  let ?bad = "default_args\<lparr>np := Some 4, command := [''foo'', ''bar'']\<rparr>"
  let ?good = "default_args\<lparr>np := Some 4, command := [''start'']\<rparr>"
  have bad: "\<not> valid_command (command ?bad)"
    by (simp add: valid_command_def)
  have good: "valid_command (command ?good)"
    by (simp add: valid_command_def)
  have pre_bad: "\<not> version ?bad \<and> truthy_int (np ?bad) \<and>
      get_hosts_arg_and_hostnames local_world ?bad = Inr (''-H localhost:4'', [''localhost'']) \<and>
      is_open_mpi_installed local_world \<and> is_ipyparallel_installed local_world"
    by (simp add: default_args_def local_world_def truthy_int_def)
  have pre_good: "\<not> version ?good \<and> truthy_int (np ?good) \<and>
      get_hosts_arg_and_hostnames local_world ?good = Inr (''-H localhost:4'', [''localhost'']) \<and>
      is_open_mpi_installed local_world \<and> is_ipyparallel_installed local_world"
    by (simp add: default_args_def local_world_def truthy_int_def)
  note b = main_rejects_other_commands
             [of ?bad local_world "(''-H localhost:4'', [''localhost''])"]
  note g = main_rejects_other_commands
             [of ?good local_world "(''-H localhost:4'', [''localhost''])"]
  have 1: "snd (main local_world ?bad) =
             Inl (ValueError (command_message local_world [''foo'', ''bar'']))"
    using b bad pre_bad by simp
  have 2: "filter launches (fst (main local_world ?bad)) = []"
    using b bad by (simp add: filter_empty_conv)
  have 3: "snd (main local_world ?good) \<noteq>
             Inl (ValueError (command_message local_world [''start'']))"
    using g good pre_good by simp
  show ?thesis
    using bad good 1 2 3 by simp
qed

text \<open>
  The claim as stated fails when \<^verbatim>\<open>--version\<close> is given with no trailing command: the
  run prints the version and exits with status 0, and no \<^verbatim>\<open>ValueError\<close> is raised.
\<close>

theorem main_version_no_command_counterexample:
  "\<not> valid_command (command (default_args\<lparr>version := True\<rparr>)) \<and>
   main local_world (default_args\<lparr>version := True\<rparr>) = ([Print ''0.2.1''], Inl (SystemExit 0))"
  using sample_version_run by (simp add: valid_command_def default_args_def)

text \<open>
  Claim C10, as the code has it. When the resolved host list has a remote host, no run of
  \<^verbatim>\<open>main\<close> launches another program, and a run that passes the earlier checks (no
  \<^verbatim>\<open>--version\<close>, a non-zero \<^verbatim>\<open>-np\<close>, Open MPI and ipyparallel installed, the trailing
  command \<^verbatim>\<open>start\<close> or \<^verbatim>\<open>stop\<close>) raises \<^verbatim>\<open>RuntimeError\<close> with the message of line 146,
  after the two host calls and the two installation checks and nothing else. In every run
  whatever, the statements after that \<^verbatim>\<open>raise\<close> are never reached: no SSH check, no
  interface discovery and no \<^verbatim>\<open>os.execve\<close> of an \<^verbatim>\<open>mpirun\<close> command occurs.
\<close>

theorem main_remote_hosts_unsupported:
  "(get_hosts_arg_and_hostnames w a = Inr (hosts_arg, names) \<and>
    filter_local_addresses w names \<noteq> [] \<longrightarrow>
      (\<forall>ev \<in> set (fst (main w a)). \<not> launches ev) \<and>
      (\<not> version a \<and> truthy_int (np a) \<and> is_open_mpi_installed w \<and>
       is_ipyparallel_installed w \<and> valid_command (command a) \<longrightarrow>
         main w a =
           ([GetHostsArgAndHostnames, FilterLocalAddresses names, IsOpenMpiInstalled,
             IsIpyparallelInstalled],
            Inl (RuntimeError ''ibfrun does not support on multiple machine yet.'')))) \<and>
   (\<forall>ev \<in> set (fst (main w a)). \<not> multi_machine_step ev)"
  using main_remote_no_launch[of w a hosts_arg names]
        main_remote_runtime_error[of w a hosts_arg names]
        main_no_multi[of _ w a]
  by blast

theorem main_remote_hosts_unsupported_witness:
  "filter_local_addresses remote_world [''localhost'', ''node2''] = [''node2''] \<and>
   main remote_world (default_args\<lparr>np := Some 4, command := [''start'']\<rparr>) =
     ([GetHostsArgAndHostnames, FilterLocalAddresses [''localhost'', ''node2''],
       IsOpenMpiInstalled, IsIpyparallelInstalled],
      Inl (RuntimeError ''ibfrun does not support on multiple machine yet.'')) \<and>
   filter multi_machine_step
     (fst (main remote_world (default_args\<lparr>np := Some 4, command := [''start'']\<rparr>))) = []"
proof -
  let ?a = "default_args\<lparr>np := Some 4, command := [''start'']\<rparr>"
  have pre: "get_hosts_arg_and_hostnames remote_world ?a =
               Inr (''-H localhost:2,node2:2'', [''localhost'', ''node2'']) \<and>
             filter_local_addresses remote_world [''localhost'', ''node2''] = [''node2''] \<and>
             \<not> version ?a \<and> truthy_int (np ?a) \<and> is_open_mpi_installed remote_world \<and>
             is_ipyparallel_installed remote_world \<and> valid_command (command ?a)"
    by (simp add: default_args_def local_world_def remote_world_def truthy_int_def
          valid_command_def)
  note t = main_remote_hosts_unsupported
             [of remote_world ?a "''-H localhost:2,node2:2''" "[''localhost'', ''node2'']"]
  have 1: "main remote_world ?a =
     ([GetHostsArgAndHostnames, FilterLocalAddresses [''localhost'', ''node2''],
       IsOpenMpiInstalled, IsIpyparallelInstalled],
      Inl (RuntimeError ''ibfrun does not support on multiple machine yet.''))"
    using t pre by simp
  have 2: "filter multi_machine_step (fst (main remote_world ?a)) = []"
    using t by (simp add: filter_empty_conv)
  show ?thesis
    using pre 1 2 by simp
qed

text \<open>
  The claim as stated fails when a remote host is resolved and the trailing command is
  missing: the run raises \<^verbatim>\<open>ValueError\<close> at line 120, not \<^verbatim>\<open>RuntimeError\<close>.
\<close>

theorem main_remote_bad_command_counterexample:
  "filter_local_addresses remote_world [''localhost'', ''node2''] = [''node2''] \<and>
   get_hosts_arg_and_hostnames remote_world (default_args\<lparr>np := Some 4\<rparr>) =
     Inr (''-H localhost:2,node2:2'', [''localhost'', ''node2'']) \<and>
   snd (main remote_world (default_args\<lparr>np := Some 4\<rparr>)) =
     Inl (ValueError (command_message remote_world []))"
  using sample_remote_no_command_run
  by (simp add: local_world_def remote_world_def)

section \<open>Properties of the neighbour exchange\<close>




text \<open>
  Claim C3. Without weights, \<^verbatim>\<open>neighborAllreduce\<close> is \<^verbatim>\<open>neighborAllreduce\<close> with the
  weight \<open>1/|inNeighbors|\<close> for every sender, and over contributions of the caller's shape
  its result is, at every index, the sum of the senders' entries divided by their number.
  With non-negative weights supplied, the result is, at every index, the sum of
  \<open>weight * entry\<close> over the senders: the weights enter as they are given, whatever they
  add up to. On the undirected ring of three ranks with self-loops, each rank holding its
  own index, rank 1 gets \<open>(0 + 1 + 2) / 3 = 1\<close>.
\<close>

theorem neighborAllreduce_weights:
  "neighborAllreduce T c None r =
     neighborAllreduce T c (Some (\<lambda>s. 1 / of_nat (length (inNeighbors T r)))) r \<and>
   (inNeighbors T r \<noteq> [] \<and> (\<forall>s \<in> set (inNeighbors T r). length (c s) = length (c r)) \<longrightarrow>
      neighborAllreduce T c None r =
        Inr (map (\<lambda>i. (\<Sum>s\<leftarrow>inNeighbors T r. c s ! i) / of_nat (length (inNeighbors T r)))
               [0..<length (c r)]) \<and>
      ((\<forall>s \<in> set (inNeighbors T r). 0 \<le> w s) \<longrightarrow>
         neighborAllreduce T c (Some w) r =
           Inr (map (\<lambda>i. \<Sum>s\<leftarrow>inNeighbors T r. w s * c s ! i) [0..<length (c r)]))) \<and>
   neighborAllreduce ring3_with_self (\<lambda>s. [of_nat s]) None 1 = Inr [1]"
  using neighborAllreduce_default_weights[of T c r] neighborAllreduce_uniform[of T r c]
        neighborAllreduce_weighted[of T r c w] ring3_scenario
  by blast

theorem neighborAllreduce_weights_witness:
  "inNeighbors ring3_with_self 1 = [0, 1, 2] \<and>
   neighborAllreduce ring3_with_self (\<lambda>s. [of_nat s]) None 1 = Inr [(0 + 1 + 2) / 3] \<and>
   neighborAllreduce ring3_with_self (\<lambda>s. [of_nat s]) (Some (\<lambda>s. 2)) 1 = Inr [6]"
proof -
  let ?c = "\<lambda>s::rank. [of_nat s :: rat]"
  have senders: "inNeighbors ring3_with_self 1 = [0, 1, 2]"
    by (simp add: ring3_with_self_def)
  have pre: "inNeighbors ring3_with_self 1 \<noteq> [] \<and>
             (\<forall>s \<in> set (inNeighbors ring3_with_self 1). length (?c s) = length (?c 1))"
    by (simp add: ring3_with_self_def)
  have nonneg: "\<forall>s \<in> set (inNeighbors ring3_with_self 1). (0::rat) \<le> (\<lambda>s. 2) s"
    by simp
  note t = neighborAllreduce_weights[of ring3_with_self ?c 1 "\<lambda>s. 2"]
  have uniform: "neighborAllreduce ring3_with_self ?c None 1 =
      Inr (map (\<lambda>i. (\<Sum>s\<leftarrow>inNeighbors ring3_with_self 1. ?c s ! i) /
                      of_nat (length (inNeighbors ring3_with_self 1)))
             [0..<length (?c 1)])"
    using t pre by blast
  have given: "neighborAllreduce ring3_with_self ?c (Some (\<lambda>s. 2)) 1 =
      Inr (map (\<lambda>i. \<Sum>s\<leftarrow>inNeighbors ring3_with_self 1. 2 * ?c s ! i) [0..<length (?c 1)])"
    using t pre nonneg by blast
  have 1: "neighborAllreduce ring3_with_self ?c None 1 = Inr [(0 + 1 + 2) / 3]"
    unfolding uniform senders by simp
  have 2: "neighborAllreduce ring3_with_self ?c (Some (\<lambda>s. 2)) 1 = Inr [6]"
    unfolding given senders by simp
  show ?thesis
    using senders 1 2 by simp
qed

section \<open>Properties of the window\<close>

text \<open>
  Claim C5, over exact numbers. Take a synchronized window (nothing pending), so that
  \<^verbatim>\<open>winSyncThenCollect\<close> returns its contents, and senders whose requests, each a weight
  and a contribution of the window's shape, arrive in any order whatever (any
  permutation of the list of sends). The next \<^verbatim>\<open>winSyncThenCollect\<close> returns, at every
  index, the value before plus the sum of \<open>weight * contribution\<close> over all sends: the
  delta is that sum, the same for every delivery order.
\<close>

theorem window_conservation_any_order:
  "inbound win = [] \<and> (\<forall>p \<in> set sends. length (snd p) = length (contents win)) \<and>
   mset arrivals = mset sends \<longrightarrow>
     fst (winSyncThenCollect win) = contents win \<and>
     fst (winSyncThenCollect (fold winAccumulate_arrive arrivals win)) =
       map (\<lambda>i. contents win ! i + (\<Sum>p\<leftarrow>sends. fst p * snd p ! i))
         [0..<length (contents win)]"
  using winSyncThenCollect_quiet[of win]
        winSyncThenCollect_after_arrivals[of win sends arrivals]
  by blast

theorem window_conservation_any_order_witness:
  "fst (winSyncThenCollect
          (fold winAccumulate_arrive [(1, [5, 0]), (1 / 2, [4, 2])] (winCreate [10, 20] False))) =
     [17, 21] \<and>
   fst (winSyncThenCollect
          (fold winAccumulate_arrive [(1 / 2, [4, 2]), (1, [5, 0])] (winCreate [10, 20] False))) =
     [17, 21] \<and>
   fst (winSyncThenCollect (fold winAccumulate_arrive [(1, [5])] (winCreate [3] True))) = [5]"
proof -
  let ?sends = "[(1 / 2, [4, 2]), (1, [5, 0])] :: (rat \<times> buffer) list"
  let ?swapped = "[(1, [5, 0]), (1 / 2, [4, 2])] :: (rat \<times> buffer) list"
  let ?win = "winCreate [10, 20] False"
  let ?zero = "winCreate [3] True"
  have pre: "inbound ?win = [] \<and> (\<forall>p \<in> set ?sends. length (snd p) = length (contents ?win))"
    by (simp add: winCreate_def Let_def)
  have perm: "mset ?swapped = mset ?sends"
    by (simp add: add_mset_commute)
  have pre0: "inbound ?zero = [] \<and>
              (\<forall>p \<in> set [(1::rat, [5::rat])]. length (snd p) = length (contents ?zero))"
    by (simp add: winCreate_def Let_def)
  have c: "contents ?win = [10, 20]" and c0: "contents ?zero = [0]"
    by (simp_all add: winCreate_def Let_def)
  have 1: "fst (winSyncThenCollect (fold winAccumulate_arrive ?swapped ?win)) =
             map (\<lambda>i. contents ?win ! i + (\<Sum>p\<leftarrow>?sends. fst p * snd p ! i))
               [0..<length (contents ?win)]"
    using window_conservation_any_order[of ?win ?sends ?swapped] pre perm by blast
  have 2: "fst (winSyncThenCollect (fold winAccumulate_arrive ?sends ?win)) =
             map (\<lambda>i. contents ?win ! i + (\<Sum>p\<leftarrow>?sends. fst p * snd p ! i))
               [0..<length (contents ?win)]"
    using window_conservation_any_order[of ?win ?sends ?sends] pre by blast
  have 3: "fst (winSyncThenCollect (fold winAccumulate_arrive [(1, [5])] ?zero)) =
             map (\<lambda>i. contents ?zero ! i + (\<Sum>p\<leftarrow>[(1::rat, [5::rat])]. fst p * snd p ! i))
               [0..<length (contents ?zero)]"
    using window_conservation_any_order[of ?zero "[(1, [5])]" "[(1, [5])]"] pre0 by blast
  have upt2: "[0..<2] = [0, 1]"
    by (simp add: upt_rec)
  show ?thesis
    unfolding 1 2 3 c c0 by (simp add: upt2)
qed

end
